theory Spec2Isabelle
  imports Main
begin

section \<open>Constants (polyaxon\_k8s/constants.py)\<close>

definition K8S_API_VERSION_V1 :: string where
  "K8S_API_VERSION_V1 = ''v1''"

definition K8S_API_VERSION_V1_BETA1 :: string where
  "K8S_API_VERSION_V1_BETA1 = ''extensions/v1beta1''"


section \<open>The cluster client as the manager sees it\<close>

text \<open>
  The manager talks to the cluster only through the kubernetes client. Every call either
  returns or raises \<open>ApiException\<close>, the one failure type the manager's handlers name
  (\<open>except ApiException as e\<close>). The exception carries the HTTP status and a reason.
\<close>

record ApiException =
  status :: int
  reason :: string

text \<open>
  \<open>client.V1DeleteOptions(api_version=..., propagation_policy=...)\<close>: keyword arguments
  that are not given stay \<open>None\<close>.
\<close>

record V1DeleteOptions =
  api_version :: "string option"
  propagation_policy :: "string option"

text \<open>
  Request bodies. The caller's payload is opaque (\<open>Obj\<close>); \<open>update_node_labels\<close> builds
  a dict literal around it.
\<close>

datatype 'a pyobj = Obj 'a | Dict "(string \<times> 'a pyobj) list"

text \<open>The three API handles the constructor of \<open>K8SManager\<close> creates.\<close>

datatype api = k8s_api | k8s_beta_api | k8s_version_api

datatype resource =
  config_map | service | pod | deployment | persistent_volume | persistent_volume_claim

text \<open>
  The client methods the manager calls, with their positional arguments in order.
  \<open>Read r name ns\<close> is \<open>read_namespaced_<r>(name, ns)\<close> when \<open>ns\<close> is given and
  \<open>read_<r>(name)\<close> when it is not (persistent volumes are cluster scoped); likewise
  \<open>Patch r name ns body\<close>, \<open>Create r ns body\<close> and \<open>Delete r name ns opts\<close>, whose last
  argument is \<open>None\<close> when the call passes no delete options at all.
\<close>

datatype 'a request =
    get_code
  | list_node
  | patch_node string "'a pyobj"
  | Read resource string "string option"
  | Patch resource string "string option" "'a pyobj"
  | Create resource "string option" "'a pyobj"
  | Delete resource string "string option" "V1DeleteOptions option"

text \<open>
  The cluster behind the client: what \<open>get_code().to_dict()\<close> and \<open>list_node().items\<close>
  give, and for every other call whether it raises (its return value is never used).
\<close>

record ('a, 'n, 'v) client =
  get_code_reply :: "ApiException + 'v"
  list_node_reply :: "ApiException + 'n list"
  reply :: "api \<Rightarrow> 'a request \<Rightarrow> ApiException option"

record ('a, 'n, 'v) K8SManager =
  cluster :: "('a, 'n, 'v) client"
  namespace :: string


section \<open>Effects: the calls issued and the log\<close>

datatype level = DEBUG | INFO | WARNING | ERROR

text \<open>\<open>K8S_error e\<close> is the text \<open>"K8S error: {}".format(e)\<close>.\<close>

datatype message = Msg string | K8S_error ApiException

record 'a effects =
  calls :: "(api \<times> 'a request) list"
  logged :: "(level \<times> message) list"

definition start :: "'a effects" where
  "start = \<lparr>calls = [], logged = []\<rparr>"

definition logger :: "level \<Rightarrow> message \<Rightarrow> 'a effects \<Rightarrow> 'a effects" where
  "logger l m s = s\<lparr>logged := logged s @ [(l, m)]\<rparr>"

definition invoke ::
  "('a, 'n, 'v) K8SManager \<Rightarrow> api \<Rightarrow> 'a request \<Rightarrow> 'a effects
    \<Rightarrow> ApiException option \<times> 'a effects" where
  "invoke self a r s = (reply (cluster self) a r, s\<lparr>calls := calls s @ [(a, r)]\<rparr>)"

text \<open>
  What reaches the caller as an exception: \<open>PolyaxonK8SError(e)\<close> raised by a handler, or
  an \<open>ApiException\<close> that no handler caught.
\<close>

datatype error = PolyaxonK8SError ApiException | RawApiException ApiException


section \<open>Cluster metadata (manager.py, lines 28-52)\<close>

definition get_version ::
  "('a, 'n, 'v) K8SManager \<Rightarrow> bool \<Rightarrow> 'a effects \<Rightarrow> (error + 'v option) \<times> 'a effects" where
  "get_version self reraise s =
    (let s1 = s\<lparr>calls := calls s @ [(k8s_version_api, get_code)]\<rparr> in
     case get_code_reply (cluster self) of
       Inr d \<Rightarrow> (Inr (Some d), s1)
     | Inl e \<Rightarrow>
         (let s2 = logger ERROR (K8S_error e) s1 in
          if reraise then (Inl (PolyaxonK8SError e), s2) else (Inr None, s2)))"

definition get_node_items ::
  "('a, 'n, 'v) K8SManager \<Rightarrow> bool \<Rightarrow> 'a effects \<Rightarrow> (error + 'n list option) \<times> 'a effects" where
  "get_node_items self reraise s =
    (let s1 = s\<lparr>calls := calls s @ [(k8s_api, list_node)]\<rparr> in
     case list_node_reply (cluster self) of
       Inr items \<Rightarrow> (Inr (Some (map (\<lambda>p. p) items)), s1)
     | Inl e \<Rightarrow>
         (let s2 = logger ERROR (K8S_error e) s1 in
          if reraise then (Inl (PolyaxonK8SError e), s2) else (Inr None, s2)))"

definition update_node_labels ::
  "('a, 'n, 'v) K8SManager \<Rightarrow> string \<Rightarrow> 'a pyobj \<Rightarrow> bool \<Rightarrow> 'a effects
    \<Rightarrow> (error + unit) \<times> 'a effects" where
  "update_node_labels self node labels reraise s =
    (let body = Dict [(''metadata'', Dict [(''labels'', labels)])] in
     case invoke self k8s_api (patch_node node body) s of
       (None, s1) \<Rightarrow> (Inr (), s1)
     | (Some e, s1) \<Rightarrow>
         (let s2 = logger ERROR (K8S_error e) s1 in
          if reraise then (Inl (PolyaxonK8SError e), s2) else (Inr (), s2)))"


section \<open>Config maps (manager.py, lines 54-87)\<close>

text \<open>
  In each operation below the first \<open>case\<close> is the read inside \<open>try\<close>. When it raises, the
  found flag is still \<open>False\<close> and the handler takes its not-found branch; a call made
  inside the handler is outside every \<open>try\<close>, so what it raises leaves the method as it is.
\<close>

definition create_or_update_config_map ::
  "('a, 'n, 'v) K8SManager \<Rightarrow> string \<Rightarrow> 'a pyobj \<Rightarrow> bool \<Rightarrow> 'a effects
    \<Rightarrow> (error + unit) \<times> 'a effects" where
  "create_or_update_config_map self name body reraise s =
    (case invoke self k8s_api (Read config_map name (Some (namespace self))) s of
       (Some e, s1) \<Rightarrow>
         (case invoke self k8s_api (Create config_map (Some (namespace self)) body) s1 of
            (Some e', s2) \<Rightarrow> (Inl (RawApiException e'), s2)
          | (None, s2) \<Rightarrow>
              (Inr (), logger DEBUG (Msg (''Config map `'' @ name @ ''` was created'')) s2))
     | (None, s1) \<Rightarrow>
         (let s2 = logger DEBUG (Msg (''A config map with name `'' @ name @ ''` was found'')) s1 in
          case invoke self k8s_api (Patch config_map name (Some (namespace self)) body) s2 of
            (Some e, s3) \<Rightarrow>
              (let s4 = logger ERROR (K8S_error e) s3 in
               if reraise then (Inl (PolyaxonK8SError e), s4) else (Inr (), s4))
          | (None, s3) \<Rightarrow>
              (Inr (), logger DEBUG (Msg (''Config map `'' @ name @ ''` was patched'')) s3)))"

definition delete_config_map ::
  "('a, 'n, 'v) K8SManager \<Rightarrow> string \<Rightarrow> bool \<Rightarrow> 'a effects
    \<Rightarrow> (error + unit) \<times> 'a effects" where
  "delete_config_map self name reraise s =
    (case invoke self k8s_api (Read config_map name (Some (namespace self))) s of
       (Some e, s1) \<Rightarrow>
         (Inr (), logger DEBUG (Msg (''Config map `'' @ name @ ''` was not found'')) s1)
     | (None, s1) \<Rightarrow>
         (case invoke self k8s_api
                 (Delete config_map name (Some (namespace self))
                    (Some \<lparr>api_version = Some K8S_API_VERSION_V1, propagation_policy = None\<rparr>)) s1 of
            (Some e, s2) \<Rightarrow>
              (let s3 = logger WARNING (Msg (''Could not delete config map `'' @ name @ ''`'')) s2 in
               if reraise then (Inl (PolyaxonK8SError e), s3) else (Inr (), s3))
          | (None, s2) \<Rightarrow>
              (Inr (), logger DEBUG (Msg (''Config map `'' @ name @ ''` Deleted'')) s2)))"


section \<open>Services, pods and deployments (manager.py, lines 89-178)\<close>

definition create_or_update_service ::
  "('a, 'n, 'v) K8SManager \<Rightarrow> string \<Rightarrow> 'a pyobj \<Rightarrow> 'a effects
    \<Rightarrow> (error + unit) \<times> 'a effects" where
  "create_or_update_service self name data s =
    (case invoke self k8s_api (Read service name (Some (namespace self))) s of
       (Some e, s1) \<Rightarrow>
         (case invoke self k8s_api (Create service (Some (namespace self)) data) s1 of
            (Some e', s2) \<Rightarrow> (Inl (RawApiException e'), s2)
          | (None, s2) \<Rightarrow>
              (Inr (), logger DEBUG (Msg (''Service `'' @ name @ ''` was created'')) s2))
     | (None, s1) \<Rightarrow>
         (let s2 = logger DEBUG (Msg (''A service with name `'' @ name @ ''` was found'')) s1 in
          case invoke self k8s_api (Patch service name (Some (namespace self)) data) s2 of
            (Some e, s3) \<Rightarrow> (Inl (PolyaxonK8SError e), s3)
          | (None, s3) \<Rightarrow>
              (Inr (), logger DEBUG (Msg (''Service `'' @ name @ ''` was patched'')) s3)))"

definition create_or_update_pod ::
  "('a, 'n, 'v) K8SManager \<Rightarrow> string \<Rightarrow> 'a pyobj \<Rightarrow> 'a effects
    \<Rightarrow> (error + unit) \<times> 'a effects" where
  "create_or_update_pod self name data s =
    (case invoke self k8s_api (Read pod name (Some (namespace self))) s of
       (Some e, s1) \<Rightarrow>
         (case invoke self k8s_api (Create pod (Some (namespace self)) data) s1 of
            (Some e', s2) \<Rightarrow> (Inl (RawApiException e'), s2)
          | (None, s2) \<Rightarrow>
              (Inr (), logger DEBUG (Msg (''Pod `'' @ name @ ''` was created'')) s2))
     | (None, s1) \<Rightarrow>
         (let s2 = logger DEBUG (Msg (''A pod with name `'' @ name @ ''` was found'')) s1 in
          case invoke self k8s_api (Patch pod name (Some (namespace self)) data) s2 of
            (Some e, s3) \<Rightarrow> (Inl (PolyaxonK8SError e), s3)
          | (None, s3) \<Rightarrow>
              (Inr (), logger DEBUG (Msg (''Pod `'' @ name @ ''` was patched'')) s3)))"

definition create_or_update_deployment ::
  "('a, 'n, 'v) K8SManager \<Rightarrow> string \<Rightarrow> 'a pyobj \<Rightarrow> 'a effects
    \<Rightarrow> (error + unit) \<times> 'a effects" where
  "create_or_update_deployment self name data s =
    (case invoke self k8s_beta_api (Read deployment name (Some (namespace self))) s of
       (Some e, s1) \<Rightarrow>
         (case invoke self k8s_beta_api (Create deployment (Some (namespace self)) data) s1 of
            (Some e', s2) \<Rightarrow> (Inl (RawApiException e'), s2)
          | (None, s2) \<Rightarrow>
              (Inr (), logger INFO (Msg (''Deployment `'' @ name @ ''` was created'')) s2))
     | (None, s1) \<Rightarrow>
         (let s2 = logger INFO (Msg (''A deployment with name `'' @ name @ ''` was found'')) s1 in
          case invoke self k8s_beta_api (Patch deployment name (Some (namespace self)) data) s2 of
            (Some e, s3) \<Rightarrow> (Inl (PolyaxonK8SError e), s3)
          | (None, s3) \<Rightarrow>
              (Inr (), logger INFO (Msg (''Deployment `'' @ name @ ''` was patched'')) s3)))"

definition delete_service ::
  "('a, 'n, 'v) K8SManager \<Rightarrow> string \<Rightarrow> 'a effects \<Rightarrow> (error + unit) \<times> 'a effects" where
  "delete_service self name s =
    (case invoke self k8s_api (Read service name (Some (namespace self))) s of
       (Some e, s1) \<Rightarrow>
         (Inr (), logger DEBUG (Msg (''Service `'' @ name @ ''` was not found'')) s1)
     | (None, s1) \<Rightarrow>
         (case invoke self k8s_api (Delete service name (Some (namespace self)) None) s1 of
            (Some e, s2) \<Rightarrow>
              (Inl (PolyaxonK8SError e),
               logger WARNING (Msg (''Could not delete service `'' @ name @ ''`'')) s2)
          | (None, s2) \<Rightarrow>
              (Inr (), logger DEBUG (Msg (''Service `'' @ name @ ''` deleted'')) s2)))"

definition delete_pod ::
  "('a, 'n, 'v) K8SManager \<Rightarrow> string \<Rightarrow> 'a effects \<Rightarrow> (error + unit) \<times> 'a effects" where
  "delete_pod self name s =
    (case invoke self k8s_api (Read pod name (Some (namespace self))) s of
       (Some e, s1) \<Rightarrow>
         (Inr (), logger DEBUG (Msg (''Pod `'' @ name @ ''` was not found'')) s1)
     | (None, s1) \<Rightarrow>
         (case invoke self k8s_api
                 (Delete pod name (Some (namespace self))
                    (Some \<lparr>api_version = Some K8S_API_VERSION_V1, propagation_policy = None\<rparr>)) s1 of
            (Some e, s2) \<Rightarrow>
              (Inl (PolyaxonK8SError e),
               logger WARNING (Msg (''Could not delete pod `'' @ name @ ''`'')) s2)
          | (None, s2) \<Rightarrow>
              (Inr (), logger DEBUG (Msg (''Pod `'' @ name @ ''` deleted'')) s2)))"

definition delete_deployment ::
  "('a, 'n, 'v) K8SManager \<Rightarrow> string \<Rightarrow> 'a effects \<Rightarrow> (error + unit) \<times> 'a effects" where
  "delete_deployment self name s =
    (case invoke self k8s_beta_api (Read deployment name (Some (namespace self))) s of
       (Some e, s1) \<Rightarrow>
         (Inr (), logger DEBUG (Msg (''Deployment `'' @ name @ ''` was not found'')) s1)
     | (None, s1) \<Rightarrow>
         (case invoke self k8s_beta_api
                 (Delete deployment name (Some (namespace self))
                    (Some \<lparr>api_version = Some K8S_API_VERSION_V1_BETA1,
                           propagation_policy = Some ''Foreground''\<rparr>)) s1 of
            (Some e, s2) \<Rightarrow>
              (Inl (PolyaxonK8SError e),
               logger WARNING (Msg (''Could not delete deployment `'' @ name @ ''`'')) s2)
          | (None, s2) \<Rightarrow>
              (Inr (), logger DEBUG (Msg (''Deployment `'' @ name @ ''` deleted'')) s2)))"


section \<open>Persistent volumes and volume claims (manager.py, lines 180-241)\<close>

definition create_or_update_volume ::
  "('a, 'n, 'v) K8SManager \<Rightarrow> string \<Rightarrow> 'a pyobj \<Rightarrow> 'a effects
    \<Rightarrow> (error + unit) \<times> 'a effects" where
  "create_or_update_volume self name data s =
    (case invoke self k8s_api (Read persistent_volume name None) s of
       (Some e, s1) \<Rightarrow>
         (case invoke self k8s_api (Create persistent_volume None data) s1 of
            (Some e', s2) \<Rightarrow> (Inl (RawApiException e'), s2)
          | (None, s2) \<Rightarrow>
              (Inr (), logger DEBUG (Msg (''Persistent volume `'' @ name @ ''` was created'')) s2))
     | (None, s1) \<Rightarrow>
         (let s2 = logger DEBUG
                     (Msg (''A Persistent volume with name `'' @ name @ ''` was found'')) s1 in
          case invoke self k8s_api (Patch persistent_volume name None data) s2 of
            (Some e, s3) \<Rightarrow> (Inl (PolyaxonK8SError e), s3)
          | (None, s3) \<Rightarrow>
              (Inr (), logger DEBUG (Msg (''Persistent volume `'' @ name @ ''` was patched'')) s3)))"

definition create_or_update_volume_claim ::
  "('a, 'n, 'v) K8SManager \<Rightarrow> string \<Rightarrow> 'a pyobj \<Rightarrow> 'a effects
    \<Rightarrow> (error + unit) \<times> 'a effects" where
  "create_or_update_volume_claim self name data s =
    (case invoke self k8s_api (Read persistent_volume_claim name (Some (namespace self))) s of
       (Some e, s1) \<Rightarrow>
         (case invoke self k8s_api
                 (Create persistent_volume_claim (Some (namespace self)) data) s1 of
            (Some e', s2) \<Rightarrow> (Inl (RawApiException e'), s2)
          | (None, s2) \<Rightarrow>
              (Inr (), logger DEBUG (Msg (''Volume claim `'' @ name @ ''` was created'')) s2))
     | (None, s1) \<Rightarrow>
         (let s2 = logger DEBUG
                     (Msg (''A volume claim with name `'' @ name @ ''` was found'')) s1 in
          case invoke self k8s_api
                 (Patch persistent_volume_claim name (Some (namespace self)) data) s2 of
            (Some e, s3) \<Rightarrow> (Inl (PolyaxonK8SError e), s3)
          | (None, s3) \<Rightarrow>
              (Inr (), logger DEBUG (Msg (''Volume claim `'' @ name @ ''` was patched'')) s3)))"

definition delete_volume ::
  "('a, 'n, 'v) K8SManager \<Rightarrow> string \<Rightarrow> 'a effects \<Rightarrow> (error + unit) \<times> 'a effects" where
  "delete_volume self name s =
    (case invoke self k8s_api (Read persistent_volume name None) s of
       (Some e, s1) \<Rightarrow>
         (Inr (), logger DEBUG (Msg (''Volume `'' @ name @ ''` was not found'')) s1)
     | (None, s1) \<Rightarrow>
         (case invoke self k8s_api
                 (Delete persistent_volume name None
                    (Some \<lparr>api_version = Some K8S_API_VERSION_V1, propagation_policy = None\<rparr>)) s1 of
            (Some e, s2) \<Rightarrow>
              (Inl (PolyaxonK8SError e),
               logger WARNING (Msg (''Could not delete volume `'' @ name @ ''`'')) s2)
          | (None, s2) \<Rightarrow>
              (Inr (), logger DEBUG (Msg (''Volume `'' @ name @ ''` Deleted'')) s2)))"

definition delete_volume_claim ::
  "('a, 'n, 'v) K8SManager \<Rightarrow> string \<Rightarrow> 'a effects \<Rightarrow> (error + unit) \<times> 'a effects" where
  "delete_volume_claim self name s =
    (case invoke self k8s_api (Read persistent_volume_claim name (Some (namespace self))) s of
       (Some e, s1) \<Rightarrow>
         (Inr (), logger DEBUG (Msg (''Volume claim `'' @ name @ ''` was not found'')) s1)
     | (None, s1) \<Rightarrow>
         (case invoke self k8s_api
                 (Delete persistent_volume_claim name (Some (namespace self))
                    (Some \<lparr>api_version = Some K8S_API_VERSION_V1, propagation_policy = None\<rparr>)) s1 of
            (Some e, s2) \<Rightarrow>
              (Inl (PolyaxonK8SError e),
               logger WARNING (Msg (''Could not delete volume claim `'' @ name @ ''`'')) s2)
          | (None, s2) \<Rightarrow>
              (Inr (), logger DEBUG (Msg (''Volume claim `'' @ name @ ''` Deleted'')) s2)))"

section \<open>Observing one run of an operation\<close>

text \<open>
  An operation is run from \<open>start\<close>; \<open>outcome\<close> is what the caller gets (\<open>Inr\<close> a return
  value, \<open>Inl\<close> an exception), \<open>issued\<close> the client calls in order, \<open>events\<close> the log.
\<close>

definition issued :: "('a effects \<Rightarrow> 'r \<times> 'a effects) \<Rightarrow> 'a request list" where
  "issued m = map snd (calls (snd (m start)))"

definition outcome :: "('a effects \<Rightarrow> 'r \<times> 'a effects) \<Rightarrow> 'r" where
  "outcome m = fst (m start)"

definition events :: "('a effects \<Rightarrow> 'r \<times> 'a effects) \<Rightarrow> (level \<times> message) list" where
  "events m = logged (snd (m start))"

fun is_create :: "'a request \<Rightarrow> bool" where
  "is_create (Create r ns b) = True"
| "is_create _ = False"

fun is_patch :: "'a request \<Rightarrow> bool" where
  "is_patch (Patch r n ns b) = True"
| "is_patch (patch_node n b) = True"
| "is_patch _ = False"

fun is_delete :: "'a request \<Rightarrow> bool" where
  "is_delete (Delete r n ns opts) = True"
| "is_delete _ = False"

definition mutating :: "'a request \<Rightarrow> bool" where
  "mutating r = (is_create r \<or> is_patch r \<or> is_delete r)"

text \<open>The underlying client failure an exception carries.\<close>

fun cause :: "error \<Rightarrow> ApiException" where
  "cause (PolyaxonK8SError e) = e"
| "cause (RawApiException e) = e"

text \<open>
  The six ensure-present and the six ensure-absent methods, by resource kind. Only the
  config map methods take \<open>reraise\<close>; the other methods have no such parameter.
\<close>

fun ensure_present ::
  "resource \<Rightarrow> ('a, 'n, 'v) K8SManager \<Rightarrow> string \<Rightarrow> 'a pyobj \<Rightarrow> bool \<Rightarrow> 'a effects
    \<Rightarrow> (error + unit) \<times> 'a effects" where
  "ensure_present config_map self name body reraise =
     create_or_update_config_map self name body reraise"
| "ensure_present service self name body reraise = create_or_update_service self name body"
| "ensure_present pod self name body reraise = create_or_update_pod self name body"
| "ensure_present deployment self name body reraise =
     create_or_update_deployment self name body"
| "ensure_present persistent_volume self name body reraise =
     create_or_update_volume self name body"
| "ensure_present persistent_volume_claim self name body reraise =
     create_or_update_volume_claim self name body"

fun ensure_absent ::
  "resource \<Rightarrow> ('a, 'n, 'v) K8SManager \<Rightarrow> string \<Rightarrow> bool \<Rightarrow> 'a effects
    \<Rightarrow> (error + unit) \<times> 'a effects" where
  "ensure_absent config_map self name reraise = delete_config_map self name reraise"
| "ensure_absent service self name reraise = delete_service self name"
| "ensure_absent pod self name reraise = delete_pod self name"
| "ensure_absent deployment self name reraise = delete_deployment self name"
| "ensure_absent persistent_volume self name reraise = delete_volume self name"
| "ensure_absent persistent_volume_claim self name reraise = delete_volume_claim self name"

text \<open>The handle and the namespace argument a kind's calls go through.\<close>

fun api_of :: "resource \<Rightarrow> api" where
  "api_of deployment = k8s_beta_api"
| "api_of _ = k8s_api"

fun scope :: "('a, 'n, 'v) K8SManager \<Rightarrow> resource \<Rightarrow> string option" where
  "scope self persistent_volume = None"
| "scope self _ = Some (namespace self)"

text \<open>
  The API version string of a kind: deployments live on the beta API, every other kind on
  the core API.
\<close>

fun kind_api_version :: "resource \<Rightarrow> string" where
  "kind_api_version deployment = K8S_API_VERSION_V1_BETA1"
| "kind_api_version _ = K8S_API_VERSION_V1"

text \<open>The line each ensure-absent method logs after a delete that succeeded.\<close>

fun deleted_msg :: "resource \<Rightarrow> string \<Rightarrow> string" where
  "deleted_msg config_map n = ''Config map `'' @ n @ ''` Deleted''"
| "deleted_msg service n = ''Service `'' @ n @ ''` deleted''"
| "deleted_msg pod n = ''Pod `'' @ n @ ''` deleted''"
| "deleted_msg deployment n = ''Deployment `'' @ n @ ''` deleted''"
| "deleted_msg persistent_volume n = ''Volume `'' @ n @ ''` Deleted''"
| "deleted_msg persistent_volume_claim n = ''Volume claim `'' @ n @ ''` Deleted''"

text \<open>The line each ensure-absent method logs when its read raised.\<close>

fun not_found_msg :: "resource \<Rightarrow> string \<Rightarrow> string" where
  "not_found_msg config_map n = ''Config map `'' @ n @ ''` was not found''"
| "not_found_msg service n = ''Service `'' @ n @ ''` was not found''"
| "not_found_msg pod n = ''Pod `'' @ n @ ''` was not found''"
| "not_found_msg deployment n = ''Deployment `'' @ n @ ''` was not found''"
| "not_found_msg persistent_volume n = ''Volume `'' @ n @ ''` was not found''"
| "not_found_msg persistent_volume_claim n = ''Volume claim `'' @ n @ ''` was not found''"

text \<open>
  The specification's error classifier: a failure is a not-found when its status is 404.
  The manager has no such test; no handler looks at the status of what it caught.
\<close>

definition spec_isNotFound :: "ApiException \<Rightarrow> bool" where
  "spec_isNotFound e = (status e = 404)"

text \<open>Python's truth value of what \<open>get_node_items\<close> returns: \<open>None\<close> or a list.\<close>

fun truthy :: "'n list option \<Rightarrow> bool" where
  "truthy None = False"
| "truthy (Some xs) = (xs \<noteq> [])"


section \<open>Concrete clusters\<close>

definition forbidden :: ApiException where
  "forbidden = \<lparr>status = 403, reason = ''Forbidden''\<rparr>"

definition not_found :: ApiException where
  "not_found = \<lparr>status = 404, reason = ''Not Found''\<rparr>"

definition conflict :: ApiException where
  "conflict = \<lparr>status = 409, reason = ''Conflict''\<rparr>"

definition server_error :: ApiException where
  "server_error = \<lparr>status = 500, reason = ''Internal Server Error''\<rparr>"

definition fake :: "(nat request \<Rightarrow> ApiException option) \<Rightarrow> (nat, string, string) K8SManager" where
  "fake f =
    \<lparr>cluster = \<lparr>get_code_reply = Inr ''1.9'', list_node_reply = Inr [], reply = (\<lambda>a. f)\<rparr>,
     namespace = ''default''\<rparr>"

text \<open>Every call succeeds.\<close>

definition healthy :: "(nat, string, string) K8SManager" where
  "healthy = fake (\<lambda>r. None)"

text \<open>Every read is refused with 403; every other call would succeed.\<close>

definition reads_forbidden :: "(nat, string, string) K8SManager" where
  "reads_forbidden = fake (\<lambda>r. case r of Read k n ns \<Rightarrow> Some forbidden | _ \<Rightarrow> None)"

text \<open>Every resource is there, and every delete fails with 500.\<close>

definition deletes_fail :: "(nat, string, string) K8SManager" where
  "deletes_fail = fake (\<lambda>r. case r of Delete k n ns opts \<Rightarrow> Some server_error | _ \<Rightarrow> None)"

text \<open>Every read answers 404 and every create is rejected with 409.\<close>

definition creates_conflict :: "(nat, string, string) K8SManager" where
  "creates_conflict =
    fake (\<lambda>r. case r of Read k n ns \<Rightarrow> Some not_found
                        | Create k ns b \<Rightarrow> Some conflict
                        | _ \<Rightarrow> None)"

text \<open>The node listing fails with 500.\<close>

definition nodes_unlistable :: "(nat, string, string) K8SManager" where
  "nodes_unlistable =
    \<lparr>cluster = \<lparr>get_code_reply = Inr ''1.9'', list_node_reply = Inl server_error,
                 reply = (\<lambda>a r. None)\<rparr>,
     namespace = ''default''\<rparr>"


section \<open>Unfolding lemmas\<close>

lemmas op_defs =
  create_or_update_config_map_def create_or_update_service_def create_or_update_pod_def
  create_or_update_deployment_def create_or_update_volume_def create_or_update_volume_claim_def
  delete_config_map_def delete_service_def delete_pod_def delete_deployment_def
  delete_volume_def delete_volume_claim_def

lemmas run_defs = issued_def outcome_def events_def invoke_def logger_def start_def Let_def

lemmas fake_defs =
  fake_def healthy_def reads_forbidden_def deletes_fail_def creates_conflict_def
  nodes_unlistable_def forbidden_def not_found_def conflict_def server_error_def
  K8S_API_VERSION_V1_def K8S_API_VERSION_V1_BETA1_def


section \<open>Ensure present\<close>

text \<open>
  C1, as stated, fails. With every read refused with 403, which the specification's classifier
  does not count as not-found, \<open>create_or_update_service\<close> does not fail: it issues the
  create and returns.
\<close>

theorem read_forbidden_still_creates:
  "\<not> spec_isNotFound forbidden
   \<and> reply (cluster reads_forbidden) k8s_api (Read service ''web'' (Some ''default'')) = Some forbidden
   \<and> create_or_update_service reads_forbidden ''web'' (Obj 0) start =
       (Inr (),
        \<lparr>calls = [(k8s_api, Read service ''web'' (Some ''default'')),
                  (k8s_api, Create service (Some ''default'') (Obj 0))],
         logged = [(DEBUG, Msg ''Service `web` was created'')]\<rparr>)"
  by (simp add: create_or_update_service_def spec_isNotFound_def run_defs fake_defs)

text \<open>
  C1, amended. For every ensure-present operation, when the initial read fails, whatever the
  status of the failure, the operation issues the read and then exactly one create with the
  caller's body, and no patch or delete; when that create succeeds the operation returns
  normally.
\<close>

theorem ensure_present_failed_read_creates:
  assumes "reply (cluster self) (api_of k) (Read k name (scope self k)) = Some e"
  shows "calls (snd (ensure_present k self name body reraise start)) =
           [(api_of k, Read k name (scope self k)), (api_of k, Create k (scope self k) body)]
    \<and> filter is_patch (issued (ensure_present k self name body reraise)) = []
    \<and> filter is_delete (issued (ensure_present k self name body reraise)) = []
    \<and> (reply (cluster self) (api_of k) (Create k (scope self k) body) = None \<longrightarrow>
          outcome (ensure_present k self name body reraise) = Inr ())"
  using assms by (cases k) (simp_all add: op_defs run_defs split: option.splits)

theorem ensure_present_failed_read_creates_witness:
  "reply (cluster reads_forbidden) (api_of pod) (Read pod ''job'' (scope reads_forbidden pod))
     = Some forbidden
   \<and> reply (cluster reads_forbidden) (api_of pod) (Create pod (scope reads_forbidden pod) (Obj 7))
     = None
   \<and> calls (snd (ensure_present pod reads_forbidden ''job'' (Obj 7) True start)) =
       [(k8s_api, Read pod ''job'' (Some ''default'')),
        (k8s_api, Create pod (Some ''default'') (Obj 7))]
   \<and> outcome (ensure_present pod reads_forbidden ''job'' (Obj 7) True) = Inr ()"
proof -
  have h: "reply (cluster reads_forbidden) (api_of pod)
             (Read pod ''job'' (scope reads_forbidden pod)) = Some forbidden"
    by (simp add: fake_defs)
  have c: "reply (cluster reads_forbidden) (api_of pod)
             (Create pod (scope reads_forbidden pod) (Obj 7)) = None"
    by (simp add: fake_defs)
  from ensure_present_failed_read_creates [OF h, of "Obj 7" True] h c
  show ?thesis by (simp add: fake_defs)
qed

text \<open>
  C3. One run of an ensure-present operation issues at most one mutating call, and never
  both a create and a patch, whatever the cluster answers to the read, the patch or the
  create.
\<close>

theorem ensure_present_one_mutation:
  "length (filter mutating (issued (ensure_present k self name body reraise))) \<le> 1
   \<and> (filter is_create (issued (ensure_present k self name body reraise)) = []
      \<or> filter is_patch (issued (ensure_present k self name body reraise)) = [])"
  by (cases k) (simp_all add: op_defs run_defs mutating_def split: option.splits)

text \<open>
  C8. In every ensure-present operation, when the read fails and the create that follows
  fails too, the caller gets an exception carrying the create's failure, for either value of
  \<open>reraise\<close>.
\<close>

theorem create_failure_propagates:
  assumes "reply (cluster self) (api_of k) (Read k name (scope self k)) = Some e"
    and "reply (cluster self) (api_of k) (Create k (scope self k) body) = Some e'"
  shows "\<exists>err. outcome (ensure_present k self name body reraise) = Inl err \<and> cause err = e'"
  using assms by (cases k) (simp_all add: op_defs run_defs)

theorem create_failure_propagates_witness:
  "reply (cluster creates_conflict) (api_of config_map)
      (Read config_map ''app-config'' (scope creates_conflict config_map)) = Some not_found
   \<and> reply (cluster creates_conflict) (api_of config_map)
      (Create config_map (scope creates_conflict config_map) (Obj 1)) = Some conflict
   \<and> (\<exists>err. outcome (ensure_present config_map creates_conflict ''app-config'' (Obj 1) False)
               = Inl err \<and> cause err = conflict)"
proof -
  have r: "reply (cluster creates_conflict) (api_of config_map)
      (Read config_map ''app-config'' (scope creates_conflict config_map)) = Some not_found"
    by (simp add: fake_defs)
  have c: "reply (cluster creates_conflict) (api_of config_map)
      (Create config_map (scope creates_conflict config_map) (Obj 1)) = Some conflict"
    by (simp add: fake_defs)
  from create_failure_propagates [OF r c, of False] r c show ?thesis by blast
qed

text \<open>
  C6, at a failing input. The resource is absent (the read answers 404) and the create is
  rejected with 409: the caller of \<open>create_or_update_service\<close> gets the client's own
  \<open>ApiException\<close>, not a \<open>PolyaxonK8SError\<close> around it.
\<close>

theorem create_failure_reaches_caller_unwrapped:
  "outcome (create_or_update_service creates_conflict ''web'' (Obj 0)) = Inl (RawApiException conflict)"
  by (simp add: create_or_update_service_def run_defs fake_defs)


section \<open>Ensure absent\<close>

text \<open>
  C2, as stated, fails. With every read refused with 403, \<open>delete_service\<close> does not fail:
  it logs that the service was not found and returns.
\<close>

theorem read_forbidden_taken_as_absent:
  "\<not> spec_isNotFound forbidden
   \<and> reply (cluster reads_forbidden) k8s_api (Read service ''web'' (Some ''default'')) = Some forbidden
   \<and> delete_service reads_forbidden ''web'' start =
       (Inr (),
        \<lparr>calls = [(k8s_api, Read service ''web'' (Some ''default''))],
         logged = [(DEBUG, Msg ''Service `web` was not found'')]\<rparr>)"
  by (simp add: delete_service_def spec_isNotFound_def run_defs fake_defs)

text \<open>
  C2, amended. For every ensure-absent operation, when the initial read fails, whatever the
  status of the failure, the operation takes the resource as already absent: it issues no
  call after the read, writes its "was not found" line as the only log entry (at debug
  level) and returns normally.
\<close>

theorem ensure_absent_failed_read_returns:
  assumes "reply (cluster self) (api_of k) (Read k name (scope self k)) = Some e"
  shows "outcome (ensure_absent k self name reraise) = Inr ()
    \<and> calls (snd (ensure_absent k self name reraise start)) =
        [(api_of k, Read k name (scope self k))]
    \<and> events (ensure_absent k self name reraise) = [(DEBUG, Msg (not_found_msg k name))]"
  using assms by (cases k) (simp_all add: op_defs run_defs)

theorem ensure_absent_failed_read_returns_witness:
  "reply (cluster reads_forbidden) (api_of persistent_volume)
      (Read persistent_volume ''data'' (scope reads_forbidden persistent_volume)) = Some forbidden
   \<and> outcome (ensure_absent persistent_volume reads_forbidden ''data'' False) = Inr ()
   \<and> calls (snd (ensure_absent persistent_volume reads_forbidden ''data'' False start)) =
        [(k8s_api, Read persistent_volume ''data'' None)]
   \<and> events (ensure_absent persistent_volume reads_forbidden ''data'' False) =
        [(DEBUG, Msg ''Volume `data` was not found'')]"
proof -
  have h: "reply (cluster reads_forbidden) (api_of persistent_volume)
      (Read persistent_volume ''data'' (scope reads_forbidden persistent_volume)) = Some forbidden"
    by (simp add: fake_defs)
  from ensure_absent_failed_read_returns [OF h, of False] h show ?thesis by simp
qed

text \<open>
  C4, as stated, fails. On a healthy cluster \<open>delete_service\<close> reads the service and then
  issues a delete that carries no delete-options payload at all.
\<close>

theorem delete_service_sends_no_options:
  "calls (snd (delete_service healthy ''web'' start)) =
     [(k8s_api, Read service ''web'' (Some ''default'')),
      (k8s_api, Delete service ''web'' (Some ''default'') None)]"
  by (simp add: delete_service_def run_defs fake_defs)

text \<open>
  C4, amended. For every ensure-absent operation other than \<open>delete_service\<close>, when the read
  succeeds the one delete request carries a delete-options payload with the kind's API
  version string, and for Deployment also the propagation policy \<open>Foreground\<close>;
  \<open>delete_service\<close> issues its delete request with no delete-options payload.
\<close>

theorem ensure_absent_delete_options:
  assumes "reply (cluster self) (api_of k) (Read k name (scope self k)) = None"
  shows "filter is_delete (issued (ensure_absent k self name reraise)) =
    [Delete k name (scope self k)
       (if k = service then None
        else Some \<lparr>api_version = Some (kind_api_version k),
                   propagation_policy = (if k = deployment then Some ''Foreground'' else None)\<rparr>)]"
  using assms by (cases k) (simp_all add: op_defs run_defs split: option.splits)

theorem ensure_absent_delete_options_witness:
  "reply (cluster healthy) (api_of deployment)
      (Read deployment ''worker'' (scope healthy deployment)) = None
   \<and> filter is_delete (issued (ensure_absent deployment healthy ''worker'' False)) =
       [Delete deployment ''worker'' (Some ''default'')
          (Some \<lparr>api_version = Some ''extensions/v1beta1'',
                 propagation_policy = Some ''Foreground''\<rparr>)]
   \<and> reply (cluster healthy) (api_of pod) (Read pod ''job'' (scope healthy pod)) = None
   \<and> filter is_delete (issued (ensure_absent pod healthy ''job'' False)) =
       [Delete pod ''job'' (Some ''default'')
          (Some \<lparr>api_version = Some ''v1'', propagation_policy = None\<rparr>)]"
proof -
  have d: "reply (cluster healthy) (api_of deployment)
      (Read deployment ''worker'' (scope healthy deployment)) = None"
    by (simp add: fake_defs)
  have p: "reply (cluster healthy) (api_of pod) (Read pod ''job'' (scope healthy pod)) = None"
    by (simp add: fake_defs)
  from ensure_absent_delete_options [OF d, of False] ensure_absent_delete_options [OF p, of False]
    d p
  show ?thesis by (simp add: fake_defs)
qed

text \<open>
  C5, as stated, fails. \<open>delete_volume\<close> and \<open>delete_volume_claim\<close> take no \<open>reraise\<close> flag;
  when the delete fails after a successful read, the caller gets the error.
\<close>

theorem volume_delete_failure_always_raised:
  "outcome (delete_volume deletes_fail ''data'') = Inl (PolyaxonK8SError server_error)
   \<and> outcome (delete_volume_claim deletes_fail ''data-claim'') = Inl (PolyaxonK8SError server_error)"
  by (simp add: delete_volume_def delete_volume_claim_def run_defs fake_defs)

text \<open>
  C5, amended. On a delete failure after a successful read, the \<open>reraise\<close> flag can suppress
  the error for the config-map ensure-absent operation only (it returns normally when the
  flag is unset); every other kind, volumes and volume claims included, raises the delete
  failure unconditionally.
\<close>

theorem delete_failure_suppressed_for_config_map_only:
  assumes "reply (cluster self) (api_of k) (Read k name (scope self k)) = None"
    and "\<And>opts. reply (cluster self) (api_of k) (Delete k name (scope self k) opts) = Some e"
  shows "outcome (ensure_absent k self name reraise) =
           (if k = config_map \<and> \<not> reraise then Inr () else Inl (PolyaxonK8SError e))"
  using assms by (cases k) (simp_all add: op_defs run_defs)

theorem delete_failure_suppressed_for_config_map_only_witness:
  "reply (cluster deletes_fail) (api_of config_map)
      (Read config_map ''app-config'' (scope deletes_fail config_map)) = None
   \<and> (\<forall>opts. reply (cluster deletes_fail) (api_of config_map)
         (Delete config_map ''app-config'' (scope deletes_fail config_map) opts) = Some server_error)
   \<and> outcome (ensure_absent config_map deletes_fail ''app-config'' False) = Inr ()
   \<and> outcome (ensure_absent config_map deletes_fail ''app-config'' True)
       = Inl (PolyaxonK8SError server_error)"
proof -
  have r: "reply (cluster deletes_fail) (api_of config_map)
      (Read config_map ''app-config'' (scope deletes_fail config_map)) = None"
    by (simp add: fake_defs)
  have d: "\<And>opts. reply (cluster deletes_fail) (api_of config_map)
         (Delete config_map ''app-config'' (scope deletes_fail config_map) opts) = Some server_error"
    by (simp add: fake_defs)
  from delete_failure_suppressed_for_config_map_only [OF r d, of False]
    delete_failure_suppressed_for_config_map_only [OF r d, of True] r d
  show ?thesis by simp
qed

text \<open>
  C7. For every ensure-absent operation called on an existing resource (the read succeeds),
  exactly one delete call is issued, and when the cluster carries that delete out the
  operation returns normally with its "deleted" line as the only log entry; for Deployment
  the delete call's options have propagation policy \<open>Foreground\<close>.
\<close>

theorem ensure_absent_existing_deleted:
  assumes "reply (cluster self) (api_of k) (Read k name (scope self k)) = None"
  shows "length (filter is_delete (issued (ensure_absent k self name reraise))) = 1
    \<and> ((\<forall>opts. reply (cluster self) (api_of k) (Delete k name (scope self k) opts) = None) \<longrightarrow>
          outcome (ensure_absent k self name reraise) = Inr ()
          \<and> events (ensure_absent k self name reraise) = [(DEBUG, Msg (deleted_msg k name))])
    \<and> (k = deployment \<longrightarrow>
          (\<exists>opts. filter is_delete (issued (ensure_absent k self name reraise)) =
                    [Delete deployment name (Some (namespace self)) (Some opts)]
                  \<and> propagation_policy opts = Some ''Foreground''))"
  using assms by (cases k) (simp_all add: op_defs run_defs split: option.splits)

theorem ensure_absent_existing_deleted_witness:
  "reply (cluster healthy) (api_of deployment)
      (Read deployment ''worker'' (scope healthy deployment)) = None
   \<and> (\<forall>opts. reply (cluster healthy) (api_of deployment)
         (Delete deployment ''worker'' (scope healthy deployment) opts) = None)
   \<and> length (filter is_delete (issued (ensure_absent deployment healthy ''worker'' False))) = 1
   \<and> outcome (ensure_absent deployment healthy ''worker'' False) = Inr ()
   \<and> events (ensure_absent deployment healthy ''worker'' False) =
       [(DEBUG, Msg ''Deployment `worker` deleted'')]
   \<and> (\<exists>opts. filter is_delete (issued (ensure_absent deployment healthy ''worker'' False)) =
                [Delete deployment ''worker'' (Some ''default'') (Some opts)]
              \<and> propagation_policy opts = Some ''Foreground'')"
proof -
  have r: "reply (cluster healthy) (api_of deployment)
      (Read deployment ''worker'' (scope healthy deployment)) = None"
    by (simp add: fake_defs)
  have d: "\<forall>opts. reply (cluster healthy) (api_of deployment)
         (Delete deployment ''worker'' (scope healthy deployment) opts) = None"
    by (simp add: fake_defs)
  have n: "namespace healthy = ''default''"
    by (simp add: fake_defs)
  from ensure_absent_existing_deleted [OF r, of False] r d n
  show ?thesis by simp
qed


section \<open>Cluster metadata\<close>

text \<open>
  C9. \<open>update_node_labels\<close> issues exactly one call, a patch of the named node whose body
  holds the given labels under \<open>metadata.labels\<close>, with no read before it; it raises exactly
  when that patch fails and \<open>reraise\<close> is set, and what it raises is a \<open>PolyaxonK8SError\<close>
  around the patch's failure.
\<close>

theorem update_node_labels_blind_patch:
  "calls (snd (update_node_labels self node labels reraise start)) =
     [(k8s_api, patch_node node (Dict [(''metadata'', Dict [(''labels'', labels)])]))]
   \<and> outcome (update_node_labels self node labels reraise) =
       (case reply (cluster self) k8s_api
               (patch_node node (Dict [(''metadata'', Dict [(''labels'', labels)])])) of
          None \<Rightarrow> Inr ()
        | Some e \<Rightarrow> if reraise then Inl (PolyaxonK8SError e) else Inr ())
   \<and> isl (outcome (update_node_labels self node labels reraise)) =
       (reraise \<and> reply (cluster self) k8s_api
                     (patch_node node (Dict [(''metadata'', Dict [(''labels'', labels)])])) \<noteq> None)"
  by (simp add: update_node_labels_def run_defs split: option.splits)

text \<open>
  C10. \<open>get_node_items\<close> returns the list of node items when the list call succeeds; when
  the call fails and \<open>reraise\<close> is unset it returns \<open>None\<close>, which is not the empty list but
  has the same truth value.
\<close>

theorem get_node_items_none_on_failure:
  "(list_node_reply (cluster self) = Inr items \<longrightarrow>
      outcome (get_node_items self reraise) = Inr (Some items))
   \<and> (list_node_reply (cluster self) = Inl e \<longrightarrow>
      outcome (get_node_items self False) = Inr None
      \<and> outcome (get_node_items self False) \<noteq> Inr (Some [])
      \<and> truthy (projr (outcome (get_node_items self False))) = truthy (Some []))"
  by (simp add: get_node_items_def run_defs)

theorem get_node_items_none_on_failure_witness:
  "list_node_reply (cluster healthy) = Inr []
   \<and> outcome (get_node_items healthy False) = Inr (Some [])
   \<and> list_node_reply (cluster nodes_unlistable) = Inl server_error
   \<and> outcome (get_node_items nodes_unlistable False) = Inr None
   \<and> truthy (projr (outcome (get_node_items nodes_unlistable False)))
       = truthy (projr (outcome (get_node_items healthy False)))"
proof -
  have h: "list_node_reply (cluster healthy) = Inr []"
    by (simp add: fake_defs)
  have u: "list_node_reply (cluster nodes_unlistable) = Inl server_error"
    by (simp add: fake_defs)
  from get_node_items_none_on_failure [of healthy "[]" False server_error]
    get_node_items_none_on_failure [of nodes_unlistable "[]" False server_error] h u
  show ?thesis by simp
qed

end
